theory Spec2Isabelle
  imports Main "HOL-Library.Sublist"
begin

section \<open>Strings as the translator sees them\<close>

text \<open>
  The translator modules of \<^verbatim>\<open>src/Frontend/src/translatorJS\<close> work on the text of one SQL
  statement with the string methods and regular expressions of JavaScript. A query is
  modelled as a \<open>string\<close> of 8-bit characters: the statements of the translator are
  ASCII text, on which \<^verbatim>\<open>toUpperCase\<close> changes the letters a-z only, \<^verbatim>\<open>\s\<close> is
  blank, tab, line feed, vertical tab, form feed and carriage return, and \<^verbatim>\<open>\w\<close> is a
  letter, a digit or the underscore. Characters beyond ASCII in the fixed texts of the
  source (accented letters, pictographs) are written as their UTF-8 bytes.
\<close>

definition nl :: string where
  "nl = [CHR 0x0A]"

definition isSpace :: "char \<Rightarrow> bool" where
  "isSpace c = (c = CHR '' '' \<or> c = CHR 0x09 \<or> c = CHR 0x0A \<or> c = CHR 0x0B
                \<or> c = CHR 0x0C \<or> c = CHR 0x0D)"

definition isDigit :: "char \<Rightarrow> bool" where
  "isDigit c = (let n = (of_char c :: int) in 48 \<le> n \<and> n \<le> 57)"

definition isWord :: "char \<Rightarrow> bool" where
  "isWord c = (let n = (of_char c :: int) in
     (48 \<le> n \<and> n \<le> 57) \<or> (65 \<le> n \<and> n \<le> 90) \<or> n = 95 \<or> (97 \<le> n \<and> n \<le> 122))"

text \<open>The dot of a regular expression: any character but a line terminator.\<close>

definition isDot :: "char \<Rightarrow> bool" where
  "isDot c = (c \<noteq> CHR 0x0A \<and> c \<noteq> CHR 0x0D)"

definition toUpperChar :: "char \<Rightarrow> char" where
  "toUpperChar c = (let n = (of_char c :: int) in
     if 97 \<le> n \<and> n \<le> 122 then char_of (n - 32) else c)"

definition toLowerChar :: "char \<Rightarrow> char" where
  "toLowerChar c = (let n = (of_char c :: int) in
     if 65 \<le> n \<and> n \<le> 90 then char_of (n + 32) else c)"

definition toUpperCase :: "string \<Rightarrow> string" where
  "toUpperCase s = map toUpperChar s"

definition toLowerCase :: "string \<Rightarrow> string" where
  "toLowerCase s = map toLowerChar s"

definition trim :: "string \<Rightarrow> string" where
  "trim s = rev (dropWhile isSpace (rev (dropWhile isSpace s)))"

fun startsWith :: "string \<Rightarrow> string \<Rightarrow> bool" where
  "startsWith s [] = True"
| "startsWith [] (p # ps) = False"
| "startsWith (c # cs) (p # ps) = (c = p \<and> startsWith cs ps)"

fun includes_str :: "string \<Rightarrow> string \<Rightarrow> bool" where
  "includes_str [] p = (p = [])"
| "includes_str (c # cs) p = (startsWith (c # cs) p \<or> includes_str cs p)"

text \<open>\<^verbatim>\<open>parts.join(sep)\<close>\<close>

fun join :: "string \<Rightarrow> string list \<Rightarrow> string" where
  "join sep [] = []"
| "join sep [x] = x"
| "join sep (x # y # ys) = x @ sep @ join sep (y # ys)"

text \<open>\<^verbatim>\<open>s.split(',')\<close>: the pieces between the separator characters, at least one piece.\<close>

fun split_chr :: "char \<Rightarrow> string \<Rightarrow> string list" where
  "split_chr d [] = [[]]"
| "split_chr d (c # cs) =
     (case split_chr d cs of
        [] \<Rightarrow> [[c]]
      | p # ps \<Rightarrow> if c = d then [] # p # ps else (c # p) # ps)"

text \<open>
  Numbers: \<^verbatim>\<open>parseInt\<close> of a run of decimal digits, and the decimal text of a
  non-negative integer as a template literal prints it (exact below \<open>2 ^ 53\<close>).
\<close>

definition digit_val :: "char \<Rightarrow> int" where
  "digit_val c = of_char c - 48"

definition parseInt :: "string \<Rightarrow> int" where
  "parseInt ds = foldl (\<lambda>n c. 10 * n + digit_val c) 0 ds"

function show_int :: "int \<Rightarrow> string" where
  "show_int n = (if n < 10 then [char_of (48 + n)]
                 else show_int (n div 10) @ [char_of (48 + n mod 10)])"
  by pat_completeness auto
termination
  by (relation "measure nat") auto

declare show_int.simps [simp del]

section \<open>Regular expressions with backtracking\<close>

text \<open>
  The state of a match: the character before the current position (for \<^verbatim>\<open>\b\<close>), the
  input from the current position on, and the capture groups bound so far (the latest
  binding of a group first). A pattern is a function of its continuation, so that
  alternatives and quantifiers are tried in the order of a backtracking matcher: the first
  way that lets the rest of the pattern match wins.
\<close>

datatype mstate = MState (prev: "char option") (rest: string) (caps: "(nat \<times> string) list")

type_synonym cont = "mstate \<Rightarrow> mstate option"
type_synonym rx = "cont \<Rightarrow> mstate \<Rightarrow> mstate option"

definition rx_eps :: rx where
  "rx_eps k st = k st"

definition rx_chr :: "(char \<Rightarrow> bool) \<Rightarrow> rx" where
  "rx_chr P k st =
     (case rest st of
        [] \<Rightarrow> None
      | c # cs \<Rightarrow> if P c then k (MState (Some c) cs (caps st)) else None)"

definition rx_seq :: "rx \<Rightarrow> rx \<Rightarrow> rx" where
  "rx_seq a b k st = a (b k) st"

definition rx_alt :: "rx \<Rightarrow> rx \<Rightarrow> rx" where
  "rx_alt a b k st = (case a k st of Some r \<Rightarrow> Some r | None \<Rightarrow> b k st)"

text \<open>A literal under the \<^verbatim>\<open>i\<close> flag: letters match in either case.\<close>

fun rx_lit :: "string \<Rightarrow> rx" where
  "rx_lit [] = rx_eps"
| "rx_lit (c # cs) = rx_seq (rx_chr (\<lambda>d. toUpperChar d = toUpperChar c)) (rx_lit cs)"

text \<open>
  \<^verbatim>\<open>a*\<close> (greedy) and \<^verbatim>\<open>a*?\<close> (lazy). An iteration that consumes nothing is
  rejected, so the length of the input bounds the number of iterations.
\<close>

primrec star_greedy :: "nat \<Rightarrow> rx \<Rightarrow> rx" where
  "star_greedy 0 a k st = k st"
| "star_greedy (Suc n) a k st =
     (case a (\<lambda>st'. if length (rest st') < length (rest st)
                     then star_greedy n a k st' else None) st of
        Some r \<Rightarrow> Some r
      | None \<Rightarrow> k st)"

primrec star_lazy :: "nat \<Rightarrow> rx \<Rightarrow> rx" where
  "star_lazy 0 a k st = k st"
| "star_lazy (Suc n) a k st =
     (case k st of
        Some r \<Rightarrow> Some r
      | None \<Rightarrow> a (\<lambda>st'. if length (rest st') < length (rest st)
                          then star_lazy n a k st' else None) st)"

definition rx_star :: "rx \<Rightarrow> rx" where
  "rx_star a k st = star_greedy (length (rest st)) a k st"

definition rx_plus :: "rx \<Rightarrow> rx" where
  "rx_plus a = rx_seq a (rx_star a)"

definition rx_star_lazy :: "rx \<Rightarrow> rx" where
  "rx_star_lazy a k st = star_lazy (length (rest st)) a k st"

definition rx_plus_lazy :: "rx \<Rightarrow> rx" where
  "rx_plus_lazy a = rx_seq a (rx_star_lazy a)"

definition rx_opt :: "rx \<Rightarrow> rx" where
  "rx_opt a = rx_alt a rx_eps"

text \<open>A capture group binds the text its body consumed.\<close>

definition rx_grp :: "nat \<Rightarrow> rx \<Rightarrow> rx" where
  "rx_grp i a k st =
     a (\<lambda>st'. k (MState (prev st') (rest st')
                   ((i, take (length (rest st) - length (rest st')) (rest st)) # caps st'))) st"

definition isWordOpt :: "char option \<Rightarrow> bool" where
  "isWordOpt co = (case co of None \<Rightarrow> False | Some c \<Rightarrow> isWord c)"

definition next_chr :: "string \<Rightarrow> char option" where
  "next_chr s = (case s of [] \<Rightarrow> None | c # cs \<Rightarrow> Some c)"

text \<open>\<^verbatim>\<open>\b\<close> and \<^verbatim>\<open>$\<close> (without the \<^verbatim>\<open>m\<close> flag: the end of the input).\<close>

definition rx_wordb :: rx where
  "rx_wordb k st =
     (if isWordOpt (prev st) \<noteq> isWordOpt (next_chr (rest st)) then k st else None)"

definition rx_eos :: rx where
  "rx_eos k st = (if rest st = [] then k st else None)"

text \<open>
  \<^verbatim>\<open>s.match(re)\<close> without the \<^verbatim>\<open>g\<close> flag: the leftmost position at which the pattern
  matches; group 0 is the whole match.
\<close>

fun rx_search :: "rx \<Rightarrow> char option \<Rightarrow> string \<Rightarrow> mstate option" where
  "rx_search r p [] = rx_grp 0 r Some (MState p [] [])"
| "rx_search r p (c # cs) =
     (case rx_grp 0 r Some (MState p (c # cs) []) of
        Some st \<Rightarrow> Some st
      | None \<Rightarrow> rx_search r (Some c) cs)"

definition rx_match :: "rx \<Rightarrow> string \<Rightarrow> mstate option" where
  "rx_match r s = rx_search r None s"

definition rx_test :: "rx \<Rightarrow> string \<Rightarrow> bool" where
  "rx_test r s = (rx_match r s \<noteq> None)"

definition group :: "mstate \<Rightarrow> nat \<Rightarrow> string option" where
  "group st i = map_of (caps st) i"

text \<open>
  The loop \<^verbatim>\<open>while ((match = pattern.exec(query)) !== null)\<close> over a pattern with the
  \<^verbatim>\<open>g\<close> flag: the successive matches, each search starting where the last match ended.
  The second argument counts the characters of the last match still to be skipped. The
  patterns used this way consume at least one character.
\<close>

fun rx_exec_all :: "rx \<Rightarrow> nat \<Rightarrow> char option \<Rightarrow> string \<Rightarrow> mstate list" where
  "rx_exec_all r skip p [] = []"
| "rx_exec_all r (Suc n) p (c # cs) = rx_exec_all r n (Some c) cs"
| "rx_exec_all r 0 p (c # cs) =
     (case rx_grp 0 r Some (MState p (c # cs) []) of
        None \<Rightarrow> rx_exec_all r 0 (Some c) cs
      | Some st \<Rightarrow> st # rx_exec_all r (length cs - length (rest st)) (Some c) cs)"

text \<open>
  \<^verbatim>\<open>s.split(re)\<close> for a separator pattern that consumes at least one character and has no
  capture group: the pieces between the successive matches.
\<close>

fun rx_split_from :: "rx \<Rightarrow> string \<Rightarrow> nat \<Rightarrow> char option \<Rightarrow> string \<Rightarrow> string list" where
  "rx_split_from r acc skip p [] = [acc]"
| "rx_split_from r acc (Suc n) p (c # cs) = rx_split_from r acc n (Some c) cs"
| "rx_split_from r acc 0 p (c # cs) =
     (case r Some (MState p (c # cs) []) of
        None \<Rightarrow> rx_split_from r (acc @ [c]) 0 (Some c) cs
      | Some st \<Rightarrow>
          if length (rest st) < length (c # cs)
          then acc # rx_split_from r [] (length cs - length (rest st)) (Some c) cs
          else rx_split_from r (acc @ [c]) 0 (Some c) cs)"

definition rx_split :: "rx \<Rightarrow> string \<Rightarrow> string list" where
  "rx_split r s = rx_split_from r [] 0 None s"

abbreviation rx_sp :: rx where "rx_sp \<equiv> rx_chr isSpace"
abbreviation rx_w :: rx where "rx_w \<equiv> rx_chr isWord"
abbreviation rx_d :: rx where "rx_d \<equiv> rx_chr isDigit"
abbreviation rx_dot :: rx where "rx_dot \<equiv> rx_chr isDot"


definition rx_seqs :: "rx list \<Rightarrow> rx" where
  "rx_seqs rs = foldr rx_seq rs rx_eps"

definition rx_alts :: "rx list \<Rightarrow> rx" where
  "rx_alts rs = foldr rx_alt rs (\<lambda>k st. None)"

section \<open>Permissions and errors\<close>

text \<open>
  The permissions of the user, as the parsers read them (\<^verbatim>\<open>permissions.select\<close>, ...).
\<close>

record permissions =
  select_perm :: bool
  insert_perm :: bool
  update_perm :: bool
  delete_perm :: bool
  create_table_perm :: bool
  drop_table_perm :: bool

text \<open>
  Every failure of the source is \<^verbatim>\<open>throw new Error(message)\<close>. The model keeps the
  message and sorts the throw sites into the three kinds of the specification: a missing
  permission, an UPDATE or DELETE without WHERE, and a malformed statement.
\<close>

datatype error =
    PermissionError string
  | DangerousOperationError string
  | SyntaxError string

definition mark_cross :: string where
  "mark_cross = [CHR 0xE2, CHR 0x9D, CHR 0x8C]"

definition mark_warning :: string where
  "mark_warning = [CHR 0xE2, CHR 0x9A, CHR 0xA0, CHR 0xEF, CHR 0xB8, CHR 0x8F]"

definition mark_alarm :: string where
  "mark_alarm = [CHR 0xF0, CHR 0x9F, CHR 0x9A, CHR 0xA8]"

definition a_acute :: string where
  "a_acute = [CHR 0xC3, CHR 0xA1]"

definition o_acute :: string where
  "o_acute = [CHR 0xC3, CHR 0xB3]"

section \<open>The UPDATE parser (updateParser, update.js)\<close>


text \<open>\<^verbatim>\<open>/UPDATE\s+\w+\s+SET\s+.+/i\<close>\<close>

definition update_basicPattern :: rx where
  "update_basicPattern = rx_seqs [rx_lit ''UPDATE'', rx_plus rx_sp, rx_plus rx_w,
     rx_plus rx_sp, rx_lit ''SET'', rx_plus rx_sp, rx_plus rx_dot]"

definition updateParser_validateSyntax :: "string \<Rightarrow> error + unit" where
  "updateParser_validateSyntax query =
     (let upperQuery = toUpperCase (trim query) in
      if \<not> startsWith upperQuery ''UPDATE''
      then Inl (SyntaxError ''La consulta debe comenzar con UPDATE'')
      else if \<not> includes_str upperQuery ''SET''
      then Inl (SyntaxError ''Sintaxis incorrecta: UPDATE debe incluir SET'')
      else if \<not> rx_test update_basicPattern query
      then Inl (SyntaxError (''Sintaxis incorrecta: Estructura UPDATE inv'' @ a_acute @ ''lida''))
      else Inr ())"

record update_analysis =
  upd_type :: string
  upd_table :: "string option"
  upd_fields :: "string list"
  upd_hasWhere :: bool
  upd_conditions :: "string list"
  upd_estimatedImpact :: string
  upd_isDangerous :: bool
  upd_warning :: "string option"
  upd_setClause :: "string option"
  upd_whereClause :: "string option"

text \<open>\<^verbatim>\<open>/UPDATE\s+(\w+)/i\<close>, \<^verbatim>\<open>/SET\s+(.*?)(?:\s+WHERE|$)/i\<close>, \<^verbatim>\<open>/(\w+)\s*=/\<close>,
  \<^verbatim>\<open>/WHERE\s+(.+?)(?:\s+ORDER|\s+LIMIT|$)/i\<close> and \<^verbatim>\<open>/\s+AND\s+|\s+OR\s+/i\<close>\<close>

definition update_tablePattern :: rx where
  "update_tablePattern = rx_seqs [rx_lit ''UPDATE'', rx_plus rx_sp, rx_grp 1 (rx_plus rx_w)]"

definition update_setPattern :: rx where
  "update_setPattern = rx_seqs [rx_lit ''SET'', rx_plus rx_sp, rx_grp 1 (rx_star_lazy rx_dot),
     rx_alt (rx_seq (rx_plus rx_sp) (rx_lit ''WHERE'')) rx_eos]"

definition update_fieldPattern :: rx where
  "update_fieldPattern = rx_seqs [rx_grp 1 (rx_plus rx_w), rx_star rx_sp, rx_lit ''='']"

definition update_wherePattern :: rx where
  "update_wherePattern = rx_seqs [rx_lit ''WHERE'', rx_plus rx_sp, rx_grp 1 (rx_plus_lazy rx_dot),
     rx_alts [rx_seq (rx_plus rx_sp) (rx_lit ''ORDER''), rx_seq (rx_plus rx_sp) (rx_lit ''LIMIT''),
              rx_eos]]"

definition and_or_separator :: rx where
  "and_or_separator = rx_alt (rx_seqs [rx_plus rx_sp, rx_lit ''AND'', rx_plus rx_sp])
                             (rx_seqs [rx_plus rx_sp, rx_lit ''OR'', rx_plus rx_sp])"

definition first_group :: "rx \<Rightarrow> string \<Rightarrow> string option" where
  "first_group r s = (case rx_match r s of None \<Rightarrow> None | Some st \<Rightarrow> group st 1)"

definition updateParser_parseWhereConditions :: "string \<Rightarrow> string list" where
  "updateParser_parseWhereConditions whereClause =
     filter (\<lambda>condition. length condition > 0) (map trim (rx_split and_or_separator whereClause))"

definition updateParser_analyzeQuery :: "string \<Rightarrow> update_analysis" where
  "updateParser_analyzeQuery query =
     (let upperQuery = toUpperCase (trim query);
          table = first_group update_tablePattern query;
          setClause = map_option trim (first_group update_setPattern query);
          fields = (case setClause of
                      None \<Rightarrow> []
                    | Some sc \<Rightarrow> map (\<lambda>upd. case first_group update_fieldPattern (trim upd) of
                                              Some f \<Rightarrow> f | None \<Rightarrow> ''unknown'')
                                     (split_chr CHR '','' sc));
          hasWhere = includes_str upperQuery ''WHERE'';
          whereClause = (if hasWhere then map_option trim (first_group update_wherePattern query)
                         else None);
          conditions = (case whereClause of
                          None \<Rightarrow> []
                        | Some wc \<Rightarrow> updateParser_parseWhereConditions wc);
          broad = (conditions = [] \<and> hasWhere)
      in \<lparr> upd_type = ''UPDATE'',
           upd_table = table,
           upd_fields = fields,
           upd_hasWhere = hasWhere,
           upd_conditions = conditions,
           upd_estimatedImpact = (if hasWhere then ''filtered_records'' else ''all_records''),
           upd_isDangerous = (\<not> hasWhere \<or> broad),
           upd_warning = (if broad then Some ''Condiciones WHERE muy amplias''
                          else if \<not> hasWhere
                          then Some (''UPDATE sin WHERE modificar'' @ a_acute @ '' TODOS los registros'')
                          else None),
           upd_setClause = setClause,
           upd_whereClause = whereClause \<rparr>)"

definition updateParser_performSecurityChecks :: "update_analysis \<Rightarrow> error + unit" where
  "updateParser_performSecurityChecks analysis =
     (if upd_isDangerous analysis \<and> upd_estimatedImpact analysis = ''all_records''
      then Inl (DangerousOperationError
             (mark_alarm @ '' Operaci'' @ o_acute @ ''n peligrosa: UPDATE sin WHERE modificar''
               @ a_acute @ '' TODOS los registros''))
      else Inr ())"

text \<open>
  \<^verbatim>\<open>execute\<close> ends with \<^verbatim>\<open>translatorAPI.executeUpdate(query, ...)\<close>, which posts the
  query to the backend. The model returns \<open>Inr\<close> of the query text that is posted, or
  \<open>Inl\<close> of the error thrown before the post; what the backend answers and the summary
  made of it are outside the model.
\<close>

definition updateParser_execute :: "string \<Rightarrow> error + string" where
  "updateParser_execute query =
     (case updateParser_validateSyntax query of
        Inl e \<Rightarrow> Inl e
      | Inr _ \<Rightarrow>
          (case updateParser_performSecurityChecks (updateParser_analyzeQuery query) of
             Inl e \<Rightarrow> Inl e
           | Inr _ \<Rightarrow> Inr query))"

section \<open>The DELETE and DROP parser (deleteParser, delete.js)\<close>


definition deleteParser_validateSyntax :: "string \<Rightarrow> error + unit" where
  "deleteParser_validateSyntax query =
     (let upperQuery = toUpperCase (trim query) in
      if startsWith upperQuery ''DELETE''
      then (if \<not> includes_str upperQuery ''FROM''
            then Inl (SyntaxError ''Sintaxis incorrecta: DELETE debe incluir FROM'')
            else Inr ())
      else if startsWith upperQuery ''DROP''
      then (if \<not> includes_str upperQuery ''TABLE'' \<and> \<not> includes_str upperQuery ''COLLECTION''
            then Inl (SyntaxError
                   ''Sintaxis incorrecta: DROP debe especificar TABLE o COLLECTION'')
            else Inr ())
      else Inr ())"

record delete_analysis =
  del_type :: "string option"
  del_table :: "string option"
  del_hasWhere :: bool
  del_conditions :: "string list"
  del_isDangerous :: bool
  del_warning :: "string option"
  del_estimatedImpact :: string

text \<open>\<^verbatim>\<open>/DELETE\s+FROM\s+(\w+)/i\<close>, \<^verbatim>\<open>/WHERE\s+(.+?)(?:ORDER|LIMIT|$)/i\<close> and
  \<^verbatim>\<open>/DROP\s+(?:TABLE|COLLECTION)\s+(\w+)/i\<close>\<close>

definition delete_tablePattern :: rx where
  "delete_tablePattern = rx_seqs [rx_lit ''DELETE'', rx_plus rx_sp, rx_lit ''FROM'',
     rx_plus rx_sp, rx_grp 1 (rx_plus rx_w)]"

definition delete_wherePattern :: rx where
  "delete_wherePattern = rx_seqs [rx_lit ''WHERE'', rx_plus rx_sp, rx_grp 1 (rx_plus_lazy rx_dot),
     rx_alts [rx_lit ''ORDER'', rx_lit ''LIMIT'', rx_eos]]"

definition drop_tablePattern :: rx where
  "drop_tablePattern = rx_seqs [rx_lit ''DROP'', rx_plus rx_sp,
     rx_alt (rx_lit ''TABLE'') (rx_lit ''COLLECTION''), rx_plus rx_sp, rx_grp 1 (rx_plus rx_w)]"

definition deleteParser_analyzeQuery :: "string \<Rightarrow> delete_analysis" where
  "deleteParser_analyzeQuery query =
     (let upperQuery = toUpperCase (trim query) in
      if startsWith upperQuery ''DELETE''
      then (let hasWhere = includes_str upperQuery ''WHERE'' in
            \<lparr> del_type = Some ''DELETE'',
              del_table = first_group delete_tablePattern query,
              del_hasWhere = hasWhere,
              del_conditions =
                (if hasWhere
                 then (case first_group delete_wherePattern query of
                         None \<Rightarrow> []
                       | Some wc \<Rightarrow> rx_split and_or_separator (trim wc))
                 else []),
              del_isDangerous = (\<not> hasWhere),
              del_warning = (if hasWhere then None
                             else Some (''DELETE sin WHERE eliminar'' @ a_acute
                                         @ '' TODOS los registros'')),
              del_estimatedImpact = (if hasWhere then ''filtered_records'' else ''all_records'') \<rparr>)
      else if startsWith upperQuery ''DROP''
      then \<lparr> del_type = Some ''DROP'',
             del_table = first_group drop_tablePattern query,
             del_hasWhere = False,
             del_conditions = [],
             del_isDangerous = True,
             del_warning = Some (''DROP eliminar'' @ a_acute @ '' completamente la tabla/colecci''
                                  @ o_acute @ ''n''),
             del_estimatedImpact = ''entire_table'' \<rparr>
      else \<lparr> del_type = None, del_table = None, del_hasWhere = False, del_conditions = [],
             del_isDangerous = False, del_warning = None, del_estimatedImpact = ''unknown'' \<rparr>)"

text \<open>
  \<^verbatim>\<open>execute\<close>: the syntax check, the analysis (a dangerous statement is only logged) and
  the post of the query to the backend.
\<close>

definition deleteParser_execute :: "string \<Rightarrow> error + string" where
  "deleteParser_execute query =
     (case deleteParser_validateSyntax query of
        Inl e \<Rightarrow> Inl e
      | Inr _ \<Rightarrow> Inr query)"

section \<open>The INSERT and CREATE parser (createParser, in api.js)\<close>

definition createParser_validatePermissions :: "permissions \<Rightarrow> string \<Rightarrow> error + unit" where
  "createParser_validatePermissions permissions query =
     (let upperQuery = toUpperCase (trim query) in
      if startsWith upperQuery ''INSERT''
      then (if \<not> insert_perm permissions
            then Inl (PermissionError
                   (mark_cross @ '' No tienes permisos para realizar operaciones INSERT''))
            else Inr ())
      else if includes_str upperQuery ''CREATE TABLE'' \<or> includes_str upperQuery ''CREATE COLLECTION''
      then (if \<not> create_table_perm permissions
            then Inl (PermissionError
                   (mark_cross @ '' No tienes permisos para crear tablas/colecciones''))
            else Inr ())
      else Inr ())"

definition createParser_validateSyntax :: "string \<Rightarrow> error + unit" where
  "createParser_validateSyntax query =
     (let upperQuery = toUpperCase (trim query) in
      if startsWith upperQuery ''INSERT''
      then (if \<not> includes_str upperQuery ''INTO''
            then Inl (SyntaxError ''Sintaxis incorrecta: INSERT debe incluir INTO'')
            else if \<not> includes_str upperQuery ''VALUES'' \<and> \<not> includes_str upperQuery ''SELECT''
            then Inl (SyntaxError ''Sintaxis incorrecta: INSERT debe incluir VALUES o SELECT'')
            else Inr ())
      else if startsWith upperQuery ''CREATE''
      then (if \<not> includes_str upperQuery ''TABLE'' \<and> \<not> includes_str upperQuery ''COLLECTION''
            then Inl (SyntaxError
                   ''Sintaxis incorrecta: CREATE debe especificar TABLE o COLLECTION'')
            else Inr ())
      else Inr ())"

text \<open>
  \<^verbatim>\<open>execute\<close>: the syntax check and the post of the query; the analysis in between only
  feeds the summary of the answer.
\<close>

definition createParser_execute :: "string \<Rightarrow> error + string" where
  "createParser_execute query =
     (case createParser_validateSyntax query of
        Inl e \<Rightarrow> Inl e
      | Inr _ \<Rightarrow> Inr query)"

section \<open>The advanced SELECT parser (selectParser, select.js)\<close>

definition selectParser_validatePermissions :: "permissions \<Rightarrow> string \<Rightarrow> error + unit" where
  "selectParser_validatePermissions permissions query =
     (if \<not> select_perm permissions
      then Inl (PermissionError
             (mark_cross @ '' No tienes permisos para realizar consultas SELECT''))
      else Inr ())"

text \<open>
  \<^verbatim>\<open>/\bCOUNT\s*\(\s*\*\s*\)/i\<close>, then \<^verbatim>\<open>/\bF\s*\(\s*\w+\s*\)/i\<close> for COUNT, SUM, AVG, MAX
  and MIN, and \<^verbatim>\<open>/\bGROUP_CONCAT\s*\(/i\<close>.
\<close>

definition count_all_pattern :: rx where
  "count_all_pattern = rx_seqs [rx_wordb, rx_lit ''COUNT'', rx_star rx_sp, rx_lit ''('',
     rx_star rx_sp, rx_lit ''*'', rx_star rx_sp, rx_lit '')'']"

definition call_pattern :: "string \<Rightarrow> rx" where
  "call_pattern f = rx_seqs [rx_wordb, rx_lit f, rx_star rx_sp, rx_lit ''('',
     rx_star rx_sp, rx_plus rx_w, rx_star rx_sp, rx_lit '')'']"

definition group_concat_pattern :: rx where
  "group_concat_pattern = rx_seqs [rx_wordb, rx_lit ''GROUP_CONCAT'', rx_star rx_sp, rx_lit ''('']"

definition selectParser_detectAggregationFunctions :: "string \<Rightarrow> bool" where
  "selectParser_detectAggregationFunctions query =
     list_ex (\<lambda>pattern. rx_test pattern query)
       [count_all_pattern, call_pattern ''COUNT'', call_pattern ''SUM'', call_pattern ''AVG'',
        call_pattern ''MAX'', call_pattern ''MIN'', group_concat_pattern]"

record aggregation =
  agg_function :: string
  agg_field :: string
  agg_alias :: string
  agg_expression :: string
  agg_isCountAll :: bool

text \<open>
  \<^verbatim>\<open>/\b(COUNT)\s*\(\s*(\*|\w+)\s*\)(?:\s+AS\s+(\w+))?/gi\<close> and, for the other functions,
  \<^verbatim>\<open>/\b(F)\s*\(\s*(\w+)\s*\)(?:\s+AS\s+(\w+))?/gi\<close>.
\<close>

definition as_alias :: rx where
  "as_alias = rx_opt (rx_seqs [rx_plus rx_sp, rx_lit ''AS'', rx_plus rx_sp, rx_grp 3 (rx_plus rx_w)])"

definition count_extract_pattern :: rx where
  "count_extract_pattern = rx_seqs [rx_wordb, rx_grp 1 (rx_lit ''COUNT''), rx_star rx_sp,
     rx_lit ''('', rx_star rx_sp, rx_grp 2 (rx_alt (rx_lit ''*'') (rx_plus rx_w)), rx_star rx_sp,
     rx_lit '')'', as_alias]"

definition call_extract_pattern :: "string \<Rightarrow> rx" where
  "call_extract_pattern f = rx_seqs [rx_wordb, rx_grp 1 (rx_lit f), rx_star rx_sp,
     rx_lit ''('', rx_star rx_sp, rx_grp 2 (rx_plus rx_w), rx_star rx_sp, rx_lit '')'', as_alias]"

definition group_text :: "mstate \<Rightarrow> nat \<Rightarrow> string" where
  "group_text st i = (case group st i of None \<Rightarrow> [] | Some s \<Rightarrow> s)"

definition default_alias :: "string \<Rightarrow> string \<Rightarrow> string" where
  "default_alias funcName field =
     toLowerCase funcName @ ''_'' @ (if field = ''*'' then ''all'' else field)"

definition detailed_aggregation :: "string \<Rightarrow> mstate \<Rightarrow> aggregation" where
  "detailed_aggregation funcName m =
     (let field = group_text m 2;
          alias = (case group m 3 of Some a \<Rightarrow> a | None \<Rightarrow> default_alias funcName field)
      in \<lparr> agg_function = funcName, agg_field = field, agg_alias = alias,
           agg_expression = group_text m 0,
           agg_isCountAll = (funcName = ''COUNT'' \<and> field = ''*'') \<rparr>)"

definition selectParser_extractDetailedAggregations :: "string \<Rightarrow> aggregation list" where
  "selectParser_extractDetailedAggregations query =
     concat (map (\<lambda>(funcName, pattern).
                    map (detailed_aggregation funcName) (rx_exec_all pattern 0 None query))
       [(''COUNT'', count_extract_pattern),
        (''SUM'', call_extract_pattern ''SUM''),
        (''AVG'', call_extract_pattern ''AVG''),
        (''MAX'', call_extract_pattern ''MAX''),
        (''MIN'', call_extract_pattern ''MIN''),
        (''GROUP_CONCAT'', call_extract_pattern ''GROUP_CONCAT'')])"

record features =
  hasJoin :: bool
  hasSubquery :: bool
  hasAggregation :: bool
  hasGroupBy :: bool
  hasHaving :: bool
  hasOrderBy :: bool
  hasWindow :: bool
  hasUnion :: bool
  hasDistinct :: bool

text \<open>
  The feature tests of \<^verbatim>\<open>deepAnalyze\<close>: \<^verbatim>\<open>/\s+JOIN\s+/i\<close>, \<^verbatim>\<open>/\(\s*SELECT\s+/i\<close>,
  \<^verbatim>\<open>/\bGROUP\s+BY\b/i\<close>, \<^verbatim>\<open>/\bHAVING\b/i\<close>, \<^verbatim>\<open>/\bORDER\s+BY\b/i\<close>,
  \<^verbatim>\<open>/\bOVER\s*\(/i\<close>, \<^verbatim>\<open>/\bUNION\b/i\<close> and \<^verbatim>\<open>/\bSELECT\s+DISTINCT\b/i\<close>.
\<close>

definition join_pattern :: rx where
  "join_pattern = rx_seqs [rx_plus rx_sp, rx_lit ''JOIN'', rx_plus rx_sp]"

definition subquery_pattern :: rx where
  "subquery_pattern = rx_seqs [rx_lit ''('', rx_star rx_sp, rx_lit ''SELECT'', rx_plus rx_sp]"

definition two_words_pattern :: "string \<Rightarrow> string \<Rightarrow> rx" where
  "two_words_pattern a b = rx_seqs [rx_wordb, rx_lit a, rx_plus rx_sp, rx_lit b, rx_wordb]"

definition keyword_pattern :: "string \<Rightarrow> rx" where
  "keyword_pattern a = rx_seqs [rx_wordb, rx_lit a, rx_wordb]"

definition over_pattern :: rx where
  "over_pattern = rx_seqs [rx_wordb, rx_lit ''OVER'', rx_star rx_sp, rx_lit ''('']"

definition deepAnalyze_features :: "string \<Rightarrow> features" where
  "deepAnalyze_features query =
     \<lparr> hasJoin = rx_test join_pattern query,
       hasSubquery = rx_test subquery_pattern query,
       hasAggregation = selectParser_detectAggregationFunctions query,
       hasGroupBy = rx_test (two_words_pattern ''GROUP'' ''BY'') query,
       hasHaving = rx_test (keyword_pattern ''HAVING'') query,
       hasOrderBy = rx_test (two_words_pattern ''ORDER'' ''BY'') query,
       hasWindow = rx_test over_pattern query,
       hasUnion = rx_test (keyword_pattern ''UNION'') query,
       hasDistinct = rx_test (two_words_pattern ''SELECT'' ''DISTINCT'') query \<rparr>"

definition complexity_score :: "features \<Rightarrow> nat" where
  "complexity_score f =
     (if hasJoin f then 2 else 0) + (if hasSubquery f then 3 else 0)
     + (if hasAggregation f then 1 else 0) + (if hasGroupBy f then 2 else 0)
     + (if hasHaving f then 2 else 0) + (if hasOrderBy f then 1 else 0)
     + (if hasDistinct f then 1 else 0) + (if hasWindow f then 4 else 0)
     + (if hasUnion f then 2 else 0)"

definition selectParser_calculateComplexity :: "features \<Rightarrow> string" where
  "selectParser_calculateComplexity f =
     (let score = complexity_score f in
      if score = 0 then ''simple''
      else if score \<le> 3 then ''moderate''
      else if score \<le> 6 then ''complex''
      else ''very_complex'')"

text \<open>
  The part of \<^verbatim>\<open>deepAnalyze\<close> that \<^verbatim>\<open>execute\<close> and \<^verbatim>\<open>optimizeAdvancedQuery\<close> read:
  the features, the aggregations and the complexity. (The tables, the ORDER BY fields and
  the pipeline estimate only reach the summary of the answer.)
\<close>

record select_analysis =
  sel_features :: features
  sel_aggregations :: "aggregation list"
  sel_complexity :: string

definition selectParser_deepAnalyze :: "string \<Rightarrow> select_analysis" where
  "selectParser_deepAnalyze query =
     (let f = deepAnalyze_features query in
      \<lparr> sel_features = f,
        sel_aggregations = selectParser_extractDetailedAggregations query,
        sel_complexity = selectParser_calculateComplexity f \<rparr>)"

definition selectParser_optimizeAdvancedQuery :: "string \<Rightarrow> select_analysis \<Rightarrow> string" where
  "selectParser_optimizeAdvancedQuery query analysis =
     (if sel_complexity analysis = ''very_complex'' \<and> \<not> rx_test (keyword_pattern ''LIMIT'') query
      then query @ '' LIMIT 500''
      else query)"

text \<open>
  \<^verbatim>\<open>execute\<close> posts the query through \<^verbatim>\<open>translatorAPI.executeSelect\<close>: the original
  text for an aggregation, the optimized text otherwise. No step before the post throws.
\<close>

definition selectParser_execute :: "string \<Rightarrow> error + string" where
  "selectParser_execute query =
     (let analysis = selectParser_deepAnalyze query in
      if hasAggregation (sel_features analysis)
      then Inr query
      else Inr (selectParser_optimizeAdvancedQuery query analysis))"

section \<open>The simple SELECT parser (readParser, read.js)\<close>

definition readParser_validatePermissions :: "permissions \<Rightarrow> string \<Rightarrow> error + unit" where
  "readParser_validatePermissions permissions query =
     (if \<not> select_perm permissions
      then Inl (PermissionError
             (mark_cross @ '' No tienes permisos para realizar consultas SELECT''))
      else Inr ())"

text \<open>\<^verbatim>\<open>/\b(COUNT|SUM|AVG|MAX|MIN|GROUP_CONCAT)\s*\(/i\<close>\<close>

definition read_aggregation_pattern :: rx where
  "read_aggregation_pattern = rx_seqs [rx_wordb,
     rx_alts [rx_lit ''COUNT'', rx_lit ''SUM'', rx_lit ''AVG'', rx_lit ''MAX'', rx_lit ''MIN'',
              rx_lit ''GROUP_CONCAT''],
     rx_star rx_sp, rx_lit ''('']"

record read_features =
  rd_hasAggregation :: bool
  rd_hasGroupBy :: bool
  rd_hasHaving :: bool
  rd_hasJoin :: bool
  rd_hasUnion :: bool
  rd_hasDistinct :: bool
  rd_hasSubquery :: bool

definition read_detect :: "string \<Rightarrow> read_features" where
  "read_detect query =
     (let upperQuery = toUpperCase query in
      \<lparr> rd_hasAggregation = rx_test read_aggregation_pattern query,
        rd_hasGroupBy = includes_str upperQuery ''GROUP BY'',
        rd_hasHaving = includes_str upperQuery ''HAVING'',
        rd_hasJoin = includes_str upperQuery ''JOIN'',
        rd_hasUnion = includes_str upperQuery ''UNION'',
        rd_hasDistinct = includes_str upperQuery ''SELECT DISTINCT'',
        rd_hasSubquery = rx_test subquery_pattern query \<rparr>)"

definition readParser_shouldUseAdvancedParser :: "string \<Rightarrow> bool" where
  "readParser_shouldUseAdvancedParser query =
     (let d = read_detect query in
      if rd_hasAggregation d \<or> rd_hasGroupBy d \<or> rd_hasHaving d \<or> rd_hasJoin d
         \<or> rd_hasUnion d \<or> rd_hasDistinct d \<or> rd_hasSubquery d
      then True
      else False)"

definition readParser_validateSyntax :: "string \<Rightarrow> error + unit" where
  "readParser_validateSyntax query =
     (let upperQuery = toUpperCase (trim query) in
      if \<not> startsWith upperQuery ''SELECT''
      then Inl (SyntaxError ''La consulta debe comenzar con SELECT'')
      else if \<not> includes_str upperQuery ''FROM''
      then Inl (SyntaxError ''Sintaxis incorrecta: SELECT debe incluir FROM'')
      else Inr ())"

text \<open>
  \<^verbatim>\<open>execute\<close> hands a query with advanced features to the advanced parser before any
  check of its own; a simple query is checked and posted as it is.
\<close>

definition readParser_execute :: "string \<Rightarrow> error + string" where
  "readParser_execute query =
     (if readParser_shouldUseAdvancedParser query
      then selectParser_execute query
      else (case readParser_validateSyntax query of
              Inl e \<Rightarrow> Inl e
            | Inr _ \<Rightarrow> Inr query))"

text \<open>
  The two classes of a SELECT in the specification: \<open>SIMPLE_READ\<close> stays in the simple
  parser, \<open>AGGREGATE_READ\<close> is routed to the advanced one.
\<close>

datatype read_kind = SIMPLE_READ | AGGREGATE_READ

definition classify_read :: "string \<Rightarrow> read_kind" where
  "classify_read query =
     (if readParser_shouldUseAdvancedParser query then AGGREGATE_READ else SIMPLE_READ)"

section \<open>The shell generator (mongoShell, in update.js)\<close>

definition dq :: string where
  "dq = [CHR 0x22]"

definition sq :: string where
  "sq = [CHR 0x27]"

definition u_acute :: string where
  "u_acute = [CHR 0xC3, CHR 0xBA]"

subsection \<open>Objects as the stage builders use them\<close>

text \<open>
  \<^verbatim>\<open>groupFields\<close> and \<^verbatim>\<open>projectFields\<close> are plain objects filled by assignment and
  read by \<^verbatim>\<open>Object.entries\<close>. An assignment to an existing key keeps the place of the
  key; an assignment of a string or a number to \<^verbatim>\<open>__proto__\<close> creates no property;
  \<^verbatim>\<open>Object.entries\<close> lists the keys that are array indices first, in ascending order,
  then the other keys in the order of their creation.
\<close>

type_synonym js_object = "(string \<times> string) list"

definition obj_set :: "string \<Rightarrow> string \<Rightarrow> js_object \<Rightarrow> js_object" where
  "obj_set k v obj =
     (if k = ''__proto__'' then obj
      else if k \<in> set (map fst obj)
      then map (\<lambda>(k', v'). if k' = k then (k', v) else (k', v')) obj
      else obj @ [(k, v)])"

definition is_array_index :: "string \<Rightarrow> bool" where
  "is_array_index k =
     (k \<noteq> [] \<and> list_all isDigit k \<and> show_int (parseInt k) = k \<and> parseInt k < 4294967295)"

definition obj_entries :: "js_object \<Rightarrow> (string \<times> string) list" where
  "obj_entries obj =
     sort_key (\<lambda>(k, v). parseInt k) (filter (\<lambda>(k, v). is_array_index k) obj)
     @ filter (\<lambda>(k, v). \<not> is_array_index k) obj"

subsection \<open>Analysis of the statement\<close>

definition mongoShell_detectQueryType :: "string \<Rightarrow> string" where
  "mongoShell_detectQueryType query =
     (let upperQuery = toUpperCase (trim query) in
      if startsWith upperQuery ''SELECT'' then ''SELECT''
      else if startsWith upperQuery ''INSERT'' then ''INSERT''
      else if startsWith upperQuery ''UPDATE'' then ''UPDATE''
      else if startsWith upperQuery ''DELETE'' then ''DELETE''
      else if startsWith upperQuery ''CREATE'' then ''CREATE''
      else if startsWith upperQuery ''DROP'' then ''DROP''
      else ''UNKNOWN'')"

text \<open>\<^verbatim>\<open>/FROM\s+(\w+)/i\<close>, \<^verbatim>\<open>/INTO\s+(\w+)/i\<close>, \<^verbatim>\<open>/UPDATE\s+(\w+)/i\<close>,
  \<^verbatim>\<open>/TABLE\s+(\w+)/i\<close>\<close>

definition name_after :: "string \<Rightarrow> rx" where
  "name_after keyword = rx_seqs [rx_lit keyword, rx_plus rx_sp, rx_grp 1 (rx_plus rx_w)]"

definition mongoShell_extractTableName :: "string \<Rightarrow> string" where
  "mongoShell_extractTableName query =
     (case first_group (name_after ''FROM'') query of
        Some t \<Rightarrow> t
      | None \<Rightarrow>
     (case first_group (name_after ''INTO'') query of
        Some t \<Rightarrow> t
      | None \<Rightarrow>
     (case first_group (name_after ''UPDATE'') query of
        Some t \<Rightarrow> t
      | None \<Rightarrow>
     (case first_group (name_after ''TABLE'') query of
        Some t \<Rightarrow> t
      | None \<Rightarrow> ''collection''))))"

definition mongoShell_detectAggregationFunctions :: "string \<Rightarrow> bool" where
  "mongoShell_detectAggregationFunctions query =
     list_ex (\<lambda>pattern. rx_test pattern query)
       [count_all_pattern, call_pattern ''COUNT'', call_pattern ''SUM'', call_pattern ''AVG'',
        call_pattern ''MAX'', call_pattern ''MIN'']"

record shell_aggregation =
  sh_function :: string
  sh_field :: string
  sh_alias :: string
  sh_isCountAll :: bool

definition shell_aggregation_of :: "string \<Rightarrow> mstate \<Rightarrow> shell_aggregation" where
  "shell_aggregation_of funcName m =
     (let field = group_text m 2 in
      \<lparr> sh_function = funcName,
        sh_field = field,
        sh_alias = (case group m 3 of Some a \<Rightarrow> a | None \<Rightarrow> default_alias funcName field),
        sh_isCountAll = (funcName = ''COUNT'' \<and> field = ''*'') \<rparr>)"

definition mongoShell_extractAggregations :: "string \<Rightarrow> shell_aggregation list" where
  "mongoShell_extractAggregations query =
     concat (map (\<lambda>(funcName, pattern).
                    map (shell_aggregation_of funcName) (rx_exec_all pattern 0 None query))
       [(''COUNT'', count_extract_pattern),
        (''SUM'', call_extract_pattern ''SUM''),
        (''AVG'', call_extract_pattern ''AVG''),
        (''MAX'', call_extract_pattern ''MAX''),
        (''MIN'', call_extract_pattern ''MIN'')])"

record order_field =
  ord_field :: string
  ord_direction :: string

text \<open>\<^verbatim>\<open>/ORDER\s+BY\s+(.+?)(?:\s+LIMIT|\s*;|\s*$)/i\<close>\<close>

definition orderBy_pattern :: rx where
  "orderBy_pattern = rx_seqs [rx_lit ''ORDER'', rx_plus rx_sp, rx_lit ''BY'', rx_plus rx_sp,
     rx_grp 1 (rx_plus_lazy rx_dot),
     rx_alts [rx_seq (rx_plus rx_sp) (rx_lit ''LIMIT''), rx_seq (rx_star rx_sp) (rx_lit '';''),
              rx_seq (rx_star rx_sp) rx_eos]]"

definition order_field_of :: "string \<Rightarrow> order_field" where
  "order_field_of field =
     (let parts = rx_split (rx_plus rx_sp) (trim field) in
      \<lparr> ord_field = (case parts of [] \<Rightarrow> [] | p # ps \<Rightarrow> p),
        ord_direction = (case parts of
                           p # d # ps \<Rightarrow> if toUpperCase d = ''DESC'' then ''DESC'' else ''ASC''
                         | _ \<Rightarrow> ''ASC'') \<rparr>)"

definition mongoShell_extractOrderBy :: "string \<Rightarrow> order_field list option" where
  "mongoShell_extractOrderBy query =
     (case first_group orderBy_pattern query of
        None \<Rightarrow> None
      | Some c \<Rightarrow> Some (map order_field_of (split_chr CHR '','' (trim c))))"

text \<open>\<^verbatim>\<open>/LIMIT\s+(\d+)/i\<close>\<close>

definition limit_pattern :: rx where
  "limit_pattern = rx_seqs [rx_lit ''LIMIT'', rx_plus rx_sp, rx_grp 1 (rx_plus rx_d)]"

definition mongoShell_extractLimit :: "string \<Rightarrow> int option" where
  "mongoShell_extractLimit query = map_option parseInt (first_group limit_pattern query)"

text \<open>\<^verbatim>\<open>/WHERE\s+(.+?)(?:\s+GROUP|\s+ORDER|\s+LIMIT|\s*;|\s*$)/i\<close>\<close>

definition where_pattern :: rx where
  "where_pattern = rx_seqs [rx_lit ''WHERE'', rx_plus rx_sp, rx_grp 1 (rx_plus_lazy rx_dot),
     rx_alts [rx_seq (rx_plus rx_sp) (rx_lit ''GROUP''), rx_seq (rx_plus rx_sp) (rx_lit ''ORDER''),
              rx_seq (rx_plus rx_sp) (rx_lit ''LIMIT''), rx_seq (rx_star rx_sp) (rx_lit '';''),
              rx_seq (rx_star rx_sp) rx_eos]]"

text \<open>The three replacements: \<^verbatim>\<open>/=/g\<close> by a colon, \<^verbatim>\<open>/AND/gi\<close> by a comma, \<^verbatim>\<open>/'/g\<close> by
  a double quote.\<close>

definition replace_chr :: "char \<Rightarrow> char \<Rightarrow> string \<Rightarrow> string" where
  "replace_chr a b s = map (\<lambda>c. if c = a then b else c) s"

fun replace_AND :: "string \<Rightarrow> string" where
  "replace_AND (a # n # d # cs) =
     (if toUpperChar a = CHR ''A'' \<and> toUpperChar n = CHR ''N'' \<and> toUpperChar d = CHR ''D''
      then CHR '','' # replace_AND cs
      else a # replace_AND (n # d # cs))"
| "replace_AND cs = cs"

definition basic_conversions :: "string \<Rightarrow> string" where
  "basic_conversions conditions =
     replace_chr CHR 0x27 CHR 0x22 (replace_AND (replace_chr CHR ''='' CHR '':'' conditions))"

definition convert_conditions :: "string \<Rightarrow> string" where
  "convert_conditions clause =
     (let conditions = trim clause;
          conditions = basic_conversions conditions
      in if \<not> startsWith conditions ''{'' then ''{ '' @ conditions @ '' }'' else conditions)"

definition mongoShell_extractWhereConditions :: "string \<Rightarrow> string" where
  "mongoShell_extractWhereConditions query =
     (case first_group where_pattern query of
        None \<Rightarrow> ''{}''
      | Some clause \<Rightarrow> convert_conditions clause)"

record sql_analysis =
  sql_type :: string
  sql_table :: string
  sql_hasAggregation :: bool
  sql_hasGroupBy :: bool
  sql_hasOrderBy :: bool
  sql_hasWhere :: bool
  sql_hasLimit :: bool
  sql_aggregations :: "shell_aggregation list"
  sql_orderBy :: "order_field list option"
  sql_limit :: "int option"

definition mongoShell_analyzeSQL :: "string \<Rightarrow> sql_analysis" where
  "mongoShell_analyzeSQL sqlQuery =
     (let upperQuery = toUpperCase sqlQuery;
          hasAggregation = mongoShell_detectAggregationFunctions sqlQuery;
          hasOrderBy = includes_str upperQuery ''ORDER BY'';
          hasLimit = includes_str upperQuery ''LIMIT''
      in \<lparr> sql_type = mongoShell_detectQueryType sqlQuery,
           sql_table = mongoShell_extractTableName sqlQuery,
           sql_hasAggregation = hasAggregation,
           sql_hasGroupBy = includes_str upperQuery ''GROUP BY'',
           sql_hasOrderBy = hasOrderBy,
           sql_hasWhere = includes_str upperQuery ''WHERE'',
           sql_hasLimit = hasLimit,
           sql_aggregations = (if hasAggregation then mongoShell_extractAggregations sqlQuery else []),
           sql_orderBy = (if hasOrderBy then mongoShell_extractOrderBy sqlQuery else None),
           sql_limit = (if hasLimit then mongoShell_extractLimit sqlQuery else None) \<rparr>)"


subsection \<open>Stages of the aggregation pipeline\<close>

definition group_accumulator :: "shell_aggregation \<Rightarrow> string option" where
  "group_accumulator agg =
     (if sh_function agg = ''COUNT''
      then (if sh_isCountAll agg
            then Some ''{ $sum: 1 }''
            else Some (''{ $sum: { $cond: [{ $ne: ['' @ dq @ ''$'' @ sh_field agg @ dq
                        @ '', null] }, 1, 0] } }''))
      else if sh_function agg = ''SUM''
      then Some (''{ $sum: '' @ dq @ ''$'' @ sh_field agg @ dq @ '' }'')
      else if sh_function agg = ''AVG''
      then Some (''{ $avg: '' @ dq @ ''$'' @ sh_field agg @ dq @ '' }'')
      else if sh_function agg = ''MAX''
      then Some (''{ $max: '' @ dq @ ''$'' @ sh_field agg @ dq @ '' }'')
      else if sh_function agg = ''MIN''
      then Some (''{ $min: '' @ dq @ ''$'' @ sh_field agg @ dq @ '' }'')
      else None)"

definition render_fields :: "js_object \<Rightarrow> string" where
  "render_fields obj =
     join ('','' @ nl) (map (\<lambda>(key, value). ''    '' @ key @ '': '' @ value) (obj_entries obj))"

definition mongoShell_buildGroupStage :: "sql_analysis \<Rightarrow> string" where
  "mongoShell_buildGroupStage analysis =
     (let groupFields0 = obj_set ''_id''
            (if sql_hasGroupBy analysis then dq @ ''$group_field'' @ dq else ''null'') [];
          groupFields = foldl (\<lambda>obj agg. case group_accumulator agg of
                                         Some acc \<Rightarrow> obj_set (sh_alias agg) acc obj
                                       | None \<Rightarrow> obj)
                          groupFields0 (sql_aggregations analysis);
          fieldsStr = render_fields groupFields
      in ''{ $group: {'' @ nl @ fieldsStr @ nl @ ''  } }'')"

definition mongoShell_buildProjectStage :: "sql_analysis \<Rightarrow> string" where
  "mongoShell_buildProjectStage analysis =
     (let projectFields0 = obj_set ''_id'' ''0'' [];
          projectFields = foldl (\<lambda>obj agg. obj_set (sh_alias agg) ''1'' obj)
                            projectFields0 (sql_aggregations analysis);
          fieldsStr = render_fields projectFields
      in ''{ $project: {'' @ nl @ fieldsStr @ nl @ ''  } }'')"

text \<open>
  \<^verbatim>\<open>extractOrderBy\<close> yields an array of \<^verbatim>\<open>{field, direction}\<close> objects or
  \<^verbatim>\<open>null\<close>, so the array branch of \<^verbatim>\<open>buildSortStage\<close> and of
  \<^verbatim>\<open>convertOrderByToSort\<close> is the one that runs.
\<close>

definition sort_fields :: "order_field list \<Rightarrow> string" where
  "sort_fields orderBy =
     join '', '' (map (\<lambda>field. dq @ ord_field field @ dq @ '': ''
                                 @ (if ord_direction field = ''DESC'' then ''-1'' else ''1''))
                      orderBy)"

definition mongoShell_buildSortStage :: "order_field list \<Rightarrow> string" where
  "mongoShell_buildSortStage orderBy = ''{ $sort: { '' @ sort_fields orderBy @ '' } }''"

definition mongoShell_convertOrderByToSort :: "order_field list \<Rightarrow> string" where
  "mongoShell_convertOrderByToSort orderBy = ''{ '' @ sort_fields orderBy @ '' }''"

text \<open>
  The array \<^verbatim>\<open>pipeline\<close> of \<^verbatim>\<open>generateAggregationPipeline\<close> after its five steps. A
  limit is truthy when it is a number other than 0.
\<close>

definition pipeline_stages :: "string \<Rightarrow> sql_analysis \<Rightarrow> string list" where
  "pipeline_stages query analysis =
     (let pipeline = [];
          whereConditions = mongoShell_extractWhereConditions query;
          pipeline = (if whereConditions \<noteq> [] \<and> whereConditions \<noteq> ''{}''
                      then pipeline @ [''  { $match: '' @ whereConditions @ '' }'']
                      else pipeline);
          pipeline = (if sql_hasAggregation analysis
                      then pipeline @ [''  '' @ mongoShell_buildGroupStage analysis]
                      else pipeline);
          pipeline = (if sql_hasAggregation analysis
                      then pipeline @ [''  '' @ mongoShell_buildProjectStage analysis]
                      else pipeline);
          pipeline = (case sql_orderBy analysis of
                        Some orderBy \<Rightarrow>
                          if sql_hasOrderBy analysis
                          then pipeline @ [''  '' @ mongoShell_buildSortStage orderBy]
                          else pipeline
                      | None \<Rightarrow> pipeline);
          pipeline = (case sql_limit analysis of
                        Some limit \<Rightarrow>
                          if sql_hasLimit analysis \<and> limit \<noteq> 0
                          then pipeline @ [''  { $limit: '' @ show_int limit @ '' }'']
                          else pipeline
                      | None \<Rightarrow> pipeline)
      in pipeline)"

definition aggregation_header :: "string \<Rightarrow> string" where
  "aggregation_header query =
     ''// MongoDB Shell equivalente para agregaci'' @ o_acute @ ''n'' @ nl
     @ ''// SQL: '' @ query @ nl
     @ ''// Usando pipeline de agregaci'' @ o_acute @ ''n'' @ nl
     @ nl"

definition mongoShell_generateAggregationPipeline :: "string \<Rightarrow> sql_analysis \<Rightarrow> string" where
  "mongoShell_generateAggregationPipeline query analysis =
     (let table = sql_table analysis;
          pipelineStr = join ('','' @ nl) (pipeline_stages query analysis)
      in aggregation_header query
         @ ''db.'' @ table @ ''.aggregate(['' @ nl @ pipelineStr @ nl @ '']);'')"

subsection \<open>Shell text of each kind of statement\<close>

definition mongoShell_addComments :: "string \<Rightarrow> string \<Rightarrow> string \<Rightarrow> string" where
  "mongoShell_addComments shell type originalQuery =
     ''// MongoDB Shell equivalente para '' @ type @ nl
     @ ''// SQL: '' @ originalQuery @ nl
     @ ''// Generado autom'' @ a_acute @ ''ticamente'' @ nl
     @ nl
     @ shell"

definition mongoShell_generateSimpleSelectShell :: "string \<Rightarrow> sql_analysis \<Rightarrow> string" where
  "mongoShell_generateSimpleSelectShell query analysis =
     (let table = sql_table analysis;
          conditions = mongoShell_extractWhereConditions query;
          shell = ''db.'' @ table @ ''.find('';
          shell = (if conditions \<noteq> [] \<and> conditions \<noteq> ''{}''
                   then shell @ conditions else shell @ ''{}'');
          shell = shell @ '')'';
          shell = (case sql_orderBy analysis of
                     Some orderBy \<Rightarrow>
                       if sql_hasOrderBy analysis
                       then shell @ ''.sort('' @ mongoShell_convertOrderByToSort orderBy @ '')''
                       else shell
                   | None \<Rightarrow> shell);
          shell = (case sql_limit analysis of
                     Some limit \<Rightarrow>
                       if limit \<noteq> 0 then shell @ ''.limit('' @ show_int limit @ '')'' else shell
                   | None \<Rightarrow> shell);
          shell = shell @ '';''
      in mongoShell_addComments shell ''SELECT'' query)"

definition mongoShell_generateSelectShellAdvanced :: "string \<Rightarrow> sql_analysis \<Rightarrow> string" where
  "mongoShell_generateSelectShellAdvanced query analysis =
     (if sql_hasAggregation analysis \<or> sql_hasGroupBy analysis
      then mongoShell_generateAggregationPipeline query analysis
      else mongoShell_generateSimpleSelectShell query analysis)"

definition mongoShell_generateInsertShell :: "string \<Rightarrow> string" where
  "mongoShell_generateInsertShell query =
     (let table = mongoShell_extractTableName query;
          shell = ''db.'' @ table @ ''.insertOne({'' @ nl
                  @ ''  // Documento basado en: '' @ query @ nl
                  @ ''  // Ajustar campos seg'' @ u_acute @ ''n estructura real'' @ nl
                  @ ''});''
      in mongoShell_addComments shell ''INSERT'' query)"

definition mongoShell_generateUpdateShell :: "string \<Rightarrow> string" where
  "mongoShell_generateUpdateShell query =
     (let table = mongoShell_extractTableName query;
          conditions = mongoShell_extractWhereConditions query;
          shell = ''db.'' @ table @ ''.updateMany('' @ nl
                  @ ''  '' @ conditions @ '','' @ nl
                  @ ''  {'' @ nl
                  @ ''    $set: {'' @ nl
                  @ ''      // Campos a actualizar seg'' @ u_acute @ ''n SET clause'' @ nl
                  @ ''    }'' @ nl
                  @ ''  }'' @ nl
                  @ '');''
      in mongoShell_addComments shell ''UPDATE'' query)"

definition mongoShell_generateDeleteShell :: "string \<Rightarrow> string" where
  "mongoShell_generateDeleteShell query =
     (let table = mongoShell_extractTableName query;
          conditions = mongoShell_extractWhereConditions query;
          shell = ''db.'' @ table @ ''.deleteMany('' @ conditions @ '');'';
          shell = (if conditions = ''{}''
                   then ''// '' @ mark_warning @ '' PELIGRO: Elimina TODOS los documentos'' @ nl
                        @ shell
                   else shell)
      in mongoShell_addComments shell ''DELETE'' query)"

definition mongoShell_generateCreateShell :: "string \<Rightarrow> string" where
  "mongoShell_generateCreateShell query =
     (let table = mongoShell_extractTableName query;
          shell = ''// En MongoDB, las colecciones se crean autom'' @ a_acute @ ''ticamente'' @ nl
                  @ ''db.'' @ table @ ''.insertOne({'' @ nl
                  @ ''  // Primer documento de ejemplo'' @ nl
                  @ ''});''
      in mongoShell_addComments shell ''CREATE'' query)"

definition mongoShell_generateDropShell :: "string \<Rightarrow> string" where
  "mongoShell_generateDropShell query =
     (let table = mongoShell_extractTableName query;
          shell = ''// '' @ mark_warning @ '' PELIGRO: Elimina toda la colecci'' @ o_acute @ ''n'' @ nl
                  @ ''db.'' @ table @ ''.drop();''
      in mongoShell_addComments shell ''DROP'' query)"

text \<open>
  The local generator. No step of it throws on a string, so the \<^verbatim>\<open>catch\<close> branch of
  the source does not run.
\<close>

definition mongoShell_generateLocalAdvanced :: "string \<Rightarrow> string" where
  "mongoShell_generateLocalAdvanced sqlQuery =
     (let analysis = mongoShell_analyzeSQL sqlQuery in
      if sql_type analysis = ''SELECT''
      then mongoShell_generateSelectShellAdvanced sqlQuery analysis
      else if sql_type analysis = ''INSERT'' then mongoShell_generateInsertShell sqlQuery
      else if sql_type analysis = ''UPDATE'' then mongoShell_generateUpdateShell sqlQuery
      else if sql_type analysis = ''DELETE'' then mongoShell_generateDeleteShell sqlQuery
      else if sql_type analysis = ''CREATE'' then mongoShell_generateCreateShell sqlQuery
      else if sql_type analysis = ''DROP'' then mongoShell_generateDropShell sqlQuery
      else ''// Consulta SQL no reconocida:'' @ nl @ ''// '' @ sqlQuery)"

section \<open>Reading results\<close>



definition all_permissions :: permissions where
  "all_permissions = \<lparr> select_perm = True, insert_perm = True, update_perm = True,
     delete_perm = True, create_table_perm = True, drop_table_perm = True \<rparr>"







section \<open>What a pattern accepts\<close>



section \<open>String methods and list notions\<close>

lemma startsWith_prefix: "startsWith s p = prefix p s"
  by (induction s p rule: startsWith.induct) auto

lemma includes_str_sublist: "includes_str s p = sublist p s"
proof (induction s)
  case Nil
  then show ?case by auto
next
  case (Cons c cs)
  then show ?case by (simp add: startsWith_prefix sublist_Cons_right)
qed

section \<open>Patterns and their continuations\<close>

























section \<open>Patterns as sets of texts\<close>

declare not_None_eq [simp del]






lemma ok_alt: "(rx_alt a b k st \<noteq> None) = (a k st \<noteq> None \<or> b k st \<noteq> None)"
  by (auto simp: rx_alt_def split: option.splits)

lemma ok_alts: "(rx_alts rs k st \<noteq> None) = (\<exists>r\<in>set rs. r k st \<noteq> None)"
  by (induction rs) (auto simp: rx_alts_def ok_alt)

lemma toUpperCase_Nil_iff: "(toUpperCase m = []) = (m = [])"
  by (simp add: toUpperCase_def)


















lemma of_char_paren: "((of_char c :: int) = 40) = (c = CHR ''('')"
proof -
  have "(of_char CHR ''('' :: int) = 40" by simp
  then have "((of_char c :: int) = 40) = ((of_char c :: int) = of_char CHR ''('')" by simp
  then show ?thesis by (simp only: of_char_eq_iff)
qed









declare not_None_eq [simp]

section \<open>The blast-radius gate of UPDATE and DELETE\<close>


text \<open>The flag is the test whether the trimmed, upper-cased text contains WHERE.\<close>

lemma hasWhere_substring:
  "upd_hasWhere (updateParser_analyzeQuery q) = sublist ''WHERE'' (toUpperCase (trim q))"
  "del_type (deleteParser_analyzeQuery q) = Some ''DELETE''
   \<Longrightarrow> del_hasWhere (deleteParser_analyzeQuery q) = sublist ''WHERE'' (toUpperCase (trim q))"
  by (auto simp add: updateParser_analyzeQuery_def deleteParser_analyzeQuery_def Let_def
      includes_str_sublist split: if_splits)






section \<open>The permission gate of SELECT\<close>

text \<open>
  Claim C2. A caller without the \<^verbatim>\<open>select\<close> permission is refused by the gate of the
  simple parser and by the gate of the advanced parser alike, whatever the text of the
  query is; the error is a permission error whose message names SELECT.
\<close>

theorem select_without_permission_refused:
  assumes "\<not> select_perm p"
  shows "\<exists>msg. readParser_validatePermissions p q = Inl (PermissionError msg)
             \<and> selectParser_validatePermissions p q = Inl (PermissionError msg)
             \<and> sublist ''SELECT'' msg"
proof -
  let ?msg = "mark_cross @ '' No tienes permisos para realizar consultas SELECT''"
  have "?msg = (mark_cross @ '' No tienes permisos para realizar consultas '') @ ''SELECT''"
    by simp
  then have "sublist ''SELECT'' ?msg"
    by (simp only: sublist_append_leftI)
  with assms show ?thesis
    by (simp add: readParser_validatePermissions_def selectParser_validatePermissions_def)
qed

theorem select_without_permission_refused_witness:
  "\<not> select_perm (all_permissions\<lparr>select_perm := False\<rparr>)
   \<and> (\<exists>msg. readParser_validatePermissions (all_permissions\<lparr>select_perm := False\<rparr>)
               ''SELECT name FROM users WHERE age > 18'' = Inl (PermissionError msg)
           \<and> selectParser_validatePermissions (all_permissions\<lparr>select_perm := False\<rparr>)
               ''SELECT name FROM users WHERE age > 18'' = Inl (PermissionError msg)
           \<and> sublist ''SELECT'' msg)"
  using select_without_permission_refused
    [of "all_permissions\<lparr>select_perm := False\<rparr>" "''SELECT name FROM users WHERE age > 18''"]
  by (simp add: all_permissions_def)

section \<open>Classification of a SELECT\<close>







section \<open>Order of the pipeline stages\<close>







section \<open>The example COUNT(*)\<close>

lemma count_example_class:
  "classify_read ''SELECT COUNT(*) AS total FROM orders'' = AGGREGATE_READ"
  by code_simp

lemma count_example_aggregations:
  "selectParser_extractDetailedAggregations ''SELECT COUNT(*) AS total FROM orders''
     = [\<lparr> agg_function = ''COUNT'', agg_field = ''*'', agg_alias = ''total'',
          agg_expression = ''COUNT(*) AS total'', agg_isCountAll = True \<rparr>]"
  by code_simp

lemma count_example_stages:
  "pipeline_stages ''SELECT COUNT(*) AS total FROM orders''
       (mongoShell_analyzeSQL ''SELECT COUNT(*) AS total FROM orders'')
     = [''  { $group: {'' @ nl @ ''    _id: null,'' @ nl @ ''    total: { $sum: 1 }'' @ nl
          @ ''  } }'',
        ''  { $project: {'' @ nl @ ''    _id: 0,'' @ nl @ ''    total: 1'' @ nl @ ''  } }'']"
  by code_simp

lemma count_example_shell:
  "mongoShell_generateLocalAdvanced ''SELECT COUNT(*) AS total FROM orders''
     = aggregation_header ''SELECT COUNT(*) AS total FROM orders''
       @ ''db.orders.aggregate(['' @ nl
       @ ''  { $group: {'' @ nl @ ''    _id: null,'' @ nl @ ''    total: { $sum: 1 }'' @ nl
       @ ''  } },'' @ nl
       @ ''  { $project: {'' @ nl @ ''    _id: 0,'' @ nl @ ''    total: 1'' @ nl @ ''  } }'' @ nl
       @ '']);''"
  by code_simp

text \<open>
  Claim C5. \<^verbatim>\<open>SELECT COUNT(*) AS total FROM orders\<close> is routed to the advanced parser,
  which extracts the one aggregation COUNT of \<open>*\<close> with the alias \<open>total\<close>; the pipeline
  built for it has two stages, \<open>$group\<close> with \<open>_id: null\<close> and \<open>total: { $sum: 1 }\<close>,
  then \<open>$project\<close> with \<open>_id: 0\<close> and \<open>total: 1\<close>, and the shell text wraps exactly
  these two in \<open>db.orders.aggregate\<close>.
\<close>

theorem count_all_example:
  "classify_read ''SELECT COUNT(*) AS total FROM orders'' = AGGREGATE_READ
   \<and> selectParser_extractDetailedAggregations ''SELECT COUNT(*) AS total FROM orders''
       = [\<lparr> agg_function = ''COUNT'', agg_field = ''*'', agg_alias = ''total'',
            agg_expression = ''COUNT(*) AS total'', agg_isCountAll = True \<rparr>]
   \<and> pipeline_stages ''SELECT COUNT(*) AS total FROM orders''
         (mongoShell_analyzeSQL ''SELECT COUNT(*) AS total FROM orders'')
       = [''  { $group: {'' @ nl @ ''    _id: null,'' @ nl @ ''    total: { $sum: 1 }'' @ nl
            @ ''  } }'',
          ''  { $project: {'' @ nl @ ''    _id: 0,'' @ nl @ ''    total: 1'' @ nl @ ''  } }'']
   \<and> mongoShell_generateLocalAdvanced ''SELECT COUNT(*) AS total FROM orders''
       = aggregation_header ''SELECT COUNT(*) AS total FROM orders''
         @ ''db.orders.aggregate(['' @ nl
         @ ''  { $group: {'' @ nl @ ''    _id: null,'' @ nl @ ''    total: { $sum: 1 }'' @ nl
         @ ''  } },'' @ nl
         @ ''  { $project: {'' @ nl @ ''    _id: 0,'' @ nl @ ''    total: 1'' @ nl @ ''  } }'' @ nl
         @ '']);''"
  using count_example_class count_example_aggregations count_example_stages
    count_example_shell
  by (intro conjI)

section \<open>The rewriting of the WHERE text\<close>












lemma no_equals_left: "CHR ''='' \<notin> set (basic_conversions c)"
proof -
  have 1: "\<And>s. CHR ''='' \<notin> set s \<Longrightarrow> CHR ''='' \<notin> set (replace_AND s)"
  proof -
    fix s :: string show "CHR ''='' \<notin> set s \<Longrightarrow> CHR ''='' \<notin> set (replace_AND s)"
      by (induction s rule: replace_AND.induct) auto
  qed
  have 2: "CHR ''='' \<notin> set (replace_chr CHR ''='' CHR '':'' c)"
    by (auto simp: replace_chr_def)
  from 1 [OF 2] show ?thesis by (auto simp: basic_conversions_def replace_chr_def)
qed








section \<open>The rendered shell text\<close>































section \<open>The anchor keyword of each statement\<close>

lemma startsWith_distinct:
  "startsWith u ''DROP'' \<Longrightarrow> \<not> startsWith u ''DELETE''"
  "startsWith u ''CREATE'' \<Longrightarrow> \<not> startsWith u ''INSERT''"
  by (cases u; cases "tl u"; auto)+

text \<open>
  Every other path checks the anchor keyword before it posts: UPDATE needs SET, DELETE
  needs FROM, DROP and CREATE need TABLE or COLLECTION, INSERT needs INTO, and a SELECT
  that stays in the simple parser needs FROM.
\<close>

lemma anchor_checked_on_other_paths:
  "(startsWith (toUpperCase (trim q)) ''UPDATE'' \<and> \<not> includes_str (toUpperCase (trim q)) ''SET''
      \<longrightarrow> updateParser_execute q = Inl (SyntaxError ''Sintaxis incorrecta: UPDATE debe incluir SET''))
   \<and> (startsWith (toUpperCase (trim q)) ''DELETE'' \<and> \<not> includes_str (toUpperCase (trim q)) ''FROM''
      \<longrightarrow> deleteParser_execute q = Inl (SyntaxError ''Sintaxis incorrecta: DELETE debe incluir FROM''))
   \<and> (startsWith (toUpperCase (trim q)) ''DROP'' \<and> \<not> includes_str (toUpperCase (trim q)) ''TABLE''
        \<and> \<not> includes_str (toUpperCase (trim q)) ''COLLECTION''
      \<longrightarrow> deleteParser_execute q
            = Inl (SyntaxError ''Sintaxis incorrecta: DROP debe especificar TABLE o COLLECTION''))
   \<and> (startsWith (toUpperCase (trim q)) ''INSERT'' \<and> \<not> includes_str (toUpperCase (trim q)) ''INTO''
      \<longrightarrow> createParser_execute q = Inl (SyntaxError ''Sintaxis incorrecta: INSERT debe incluir INTO''))
   \<and> (startsWith (toUpperCase (trim q)) ''CREATE'' \<and> \<not> includes_str (toUpperCase (trim q)) ''TABLE''
        \<and> \<not> includes_str (toUpperCase (trim q)) ''COLLECTION''
      \<longrightarrow> createParser_execute q
            = Inl (SyntaxError ''Sintaxis incorrecta: CREATE debe especificar TABLE o COLLECTION''))
   \<and> (\<not> readParser_shouldUseAdvancedParser q \<and> startsWith (toUpperCase (trim q)) ''SELECT''
        \<and> \<not> includes_str (toUpperCase (trim q)) ''FROM''
      \<longrightarrow> readParser_execute q = Inl (SyntaxError ''Sintaxis incorrecta: SELECT debe incluir FROM''))"
  by (simp add: updateParser_execute_def updateParser_validateSyntax_def
      deleteParser_execute_def deleteParser_validateSyntax_def
      createParser_execute_def createParser_validateSyntax_def
      readParser_execute_def readParser_validateSyntax_def Let_def startsWith_distinct)


text \<open>
  Claim C8 fails on the code. \<^verbatim>\<open>SELECT COUNT(*)\<close> has no FROM, the syntax check of the
  simple parser would reject it with the error that names FROM, and yet \<^verbatim>\<open>execute\<close>
  posts it: the query is handed to the advanced parser before the check, and the advanced
  parser has no syntax check.
\<close>

theorem select_without_from_is_posted:
  "\<not> includes_str (toUpperCase (trim ''SELECT COUNT(*)'')) ''FROM''
   \<and> readParser_validateSyntax ''SELECT COUNT(*)''
       = Inl (SyntaxError ''Sintaxis incorrecta: SELECT debe incluir FROM'')
   \<and> readParser_execute ''SELECT COUNT(*)'' = Inr ''SELECT COUNT(*)''"
  by code_simp

section \<open>The extracted table name\<close>





section \<open>The safety limit of the advanced parser\<close>





end
